theory Spec2Isabelle
  imports Complex_Main
begin

section \<open>JavaScript values as the application sees them\<close>

text \<open>
  \<^verbatim>\<open>src/App.js\<close> is a single React component. The values it handles beyond its own
  strings and booleans are the objects the host hands back: the captured photo, the
  parsed JSON body of the inference response and the permission status. They are
  modelled by one datatype of JavaScript values. A number is modelled by its real value
  (\<^verbatim>\<open>JSON.parse\<close> never yields NaN); an object by the list of its own properties.
\<close>

datatype js_value =
    JUndefined
  | JNull
  | JBool bool
  | JNum real
  | JStr string
  | JArr "js_value list"
  | JObj "(string \<times> js_value) list"

text \<open>
  A thrown value. Everything the host throws at the application (a rejected
  \<^verbatim>\<open>takePictureAsync\<close>, \<^verbatim>\<open>fetch\<close> or \<^verbatim>\<open>response.json()\<close>, a TypeError of the engine)
  is an \<^verbatim>\<open>Error\<close> object, of which the code reads \<^verbatim>\<open>error.message\<close> only
  (the selector \<open>err_message\<close>).
\<close>

datatype js_error = JsError (err_message: string)

text \<open>
  What the JavaScript engine decides and the source does not: the message text of the
  TypeError raised by a property read on \<^verbatim>\<open>null\<close> or \<^verbatim>\<open>undefined\<close>, and the outcome of
  \<^verbatim>\<open>v > 0\<close> for a value that needs a coercion first (a string, an array or an object;
  the coercion of an object can throw).
\<close>

record js_engine =
  typeErrorMessage :: "js_value \<Rightarrow> string \<Rightarrow> string"
  coerceGtZero :: "js_value \<Rightarrow> js_error + bool"

text \<open>Truthiness, as \<^verbatim>\<open>&&\<close> and \<^verbatim>\<open>if\<close> test it.\<close>

fun truthy :: "js_value \<Rightarrow> bool" where
  "truthy JUndefined = False"
| "truthy JNull = False"
| "truthy (JBool b) = b"
| "truthy (JNum r) = (r \<noteq> 0)"
| "truthy (JStr s) = (s \<noteq> [])"
| "truthy (JArr xs) = True"
| "truthy (JObj kvs) = True"

text \<open>
  \<^verbatim>\<open>v.p\<close> for the property names the source reads (\<^verbatim>\<open>candidates\<close>, \<^verbatim>\<open>content\<close>,
  \<^verbatim>\<open>parts\<close>, \<^verbatim>\<open>text\<close>, \<^verbatim>\<open>base64\<close>, \<^verbatim>\<open>status\<close>): none of them is defined by a built-in
  prototype, so the read finds an own property of an object or yields \<^verbatim>\<open>undefined\<close>;
  on \<^verbatim>\<open>null\<close> and \<^verbatim>\<open>undefined\<close> it throws a TypeError.
\<close>

fun get_field :: "js_engine \<Rightarrow> js_value \<Rightarrow> string \<Rightarrow> js_error + js_value" where
  "get_field E JUndefined p = Inl (JsError (typeErrorMessage E JUndefined p))"
| "get_field E JNull p = Inl (JsError (typeErrorMessage E JNull p))"
| "get_field E (JObj kvs) p = Inr (case map_of kvs p of None \<Rightarrow> JUndefined | Some v \<Rightarrow> v)"
| "get_field E v p = Inr JUndefined"

text \<open>\<^verbatim>\<open>v[0]\<close>: the first element of an array, the first character of a string, the
  property \<^verbatim>\<open>"0"\<close> of an object.\<close>

fun get_index0 :: "js_engine \<Rightarrow> js_value \<Rightarrow> js_error + js_value" where
  "get_index0 E JUndefined = Inl (JsError (typeErrorMessage E JUndefined ''0''))"
| "get_index0 E JNull = Inl (JsError (typeErrorMessage E JNull ''0''))"
| "get_index0 E (JArr xs) = Inr (case xs of [] \<Rightarrow> JUndefined | x # _ \<Rightarrow> x)"
| "get_index0 E (JStr s) = Inr (case s of [] \<Rightarrow> JUndefined | c # _ \<Rightarrow> JStr [c])"
| "get_index0 E (JObj kvs) = Inr (case map_of kvs ''0'' of None \<Rightarrow> JUndefined | Some v \<Rightarrow> v)"
| "get_index0 E v = Inr JUndefined"

text \<open>\<^verbatim>\<open>v > 0\<close>: numbers compare, \<^verbatim>\<open>undefined\<close> is NaN, \<^verbatim>\<open>null\<close> is 0, a boolean is 0 or 1;
  the other values are coerced by the engine.\<close>

fun gt_zero :: "js_engine \<Rightarrow> js_value \<Rightarrow> js_error + bool" where
  "gt_zero E JUndefined = Inr False"
| "gt_zero E JNull = Inr False"
| "gt_zero E (JBool b) = Inr b"
| "gt_zero E (JNum r) = Inr (0 < r)"
| "gt_zero E v = coerceGtZero E v"

text \<open>\<^verbatim>\<open>v.length > 0\<close>: an array and a string have their length; an object has the
  property \<^verbatim>\<open>length\<close> or none; a number or a boolean has none.\<close>

fun length_gt_zero :: "js_engine \<Rightarrow> js_value \<Rightarrow> js_error + bool" where
  "length_gt_zero E JUndefined = Inl (JsError (typeErrorMessage E JUndefined ''length''))"
| "length_gt_zero E JNull = Inl (JsError (typeErrorMessage E JNull ''length''))"
| "length_gt_zero E (JArr xs) = Inr (0 < length xs)"
| "length_gt_zero E (JStr s) = Inr (0 < length s)"
| "length_gt_zero E (JObj kvs) =
     gt_zero E (case map_of kvs ''length'' of None \<Rightarrow> JUndefined | Some v \<Rightarrow> v)"
| "length_gt_zero E v = Inr False"

text \<open>Sequencing of computations that can throw, and the short-circuit \<^verbatim>\<open>&&\<close> of a
  condition.\<close>

definition bind_js :: "js_error + 'a \<Rightarrow> ('a \<Rightarrow> js_error + 'b) \<Rightarrow> js_error + 'b" where
  "bind_js m f = (case m of Inl e \<Rightarrow> Inl e | Inr v \<Rightarrow> f v)"

definition and_js :: "js_error + bool \<Rightarrow> js_error + bool \<Rightarrow> js_error + bool" where
  "and_js a b = (case a of Inl e \<Rightarrow> Inl e | Inr False \<Rightarrow> Inr False | Inr True \<Rightarrow> b)"

definition truthy_js :: "js_error + js_value \<Rightarrow> js_error + bool" where
  "truthy_js m = bind_js m (\<lambda>v. Inr (truthy v))"

section \<open>Prompt derivation\<close>

text \<open>\<^verbatim>\<open>getPromptForMode\<close> (lines 97 to 107): a \<^verbatim>\<open>switch\<close> whose \<^verbatim>\<open>passive\<close> case falls
  through to \<^verbatim>\<open>default\<close>.\<close>

definition readPrompt :: string where
  "readPrompt = ''Extract all readable text from this image. No extra commentary or explanation. Prioritize the most important text.''"

definition navigatePrompt :: string where
  "navigatePrompt = ''Describe the immediate environment for indoor navigation. Identify key objects, obstacles, pathways, and directional cues. Mention any furniture, doors, stairs, changes in floor level, or other significant features. Provide guidance on what's directly in front, to the left, and to the right. Highlight potential hazards or clear paths.''"

definition passivePrompt :: string where
  "passivePrompt = ''Describe the scene briefly. Focus on elements that would be helpful for a visually impaired person to navigate or understand their surroundings. For example, if there's text, read it out. If there are obstacles, describe them. Be concise but informative.''"

definition getPromptForMode :: "string \<Rightarrow> string" where
  "getPromptForMode mode =
     (if mode = ''read'' then readPrompt
      else if mode = ''navigate'' then navigatePrompt
      else passivePrompt)"

section \<open>Session state and effects\<close>

text \<open>
  The component's state (lines 20 to 25): the five \<^verbatim>\<open>useState\<close> cells and whether
  \<^verbatim>\<open>cameraRef.current\<close> holds a camera. \<open>message\<close> holds whatever \<^verbatim>\<open>setMessage\<close> was
  given, which for a description is a value taken from the parsed response. A state
  setter is modelled as an immediate update. The calls into the host (speech, camera,
  network, console, timers) are recorded in \<open>trace\<close>, oldest first.
\<close>

record request =
  httpMethod :: string
  headers :: "(string \<times> string) list"
  body :: js_value \<comment> \<open>the value whose \<^verbatim>\<open>JSON.stringify\<close> is the body\<close>

datatype effect =
    SpeechStop
  | SpeechSpeak js_value js_value \<comment> \<open>\<^verbatim>\<open>Speech.speak(text, options)\<close>\<close>
  | TakePicture js_value \<comment> \<open>\<^verbatim>\<open>cameraRef.current.takePictureAsync(options)\<close>\<close>
  | Fetch string request \<comment> \<open>\<^verbatim>\<open>fetch(url, options)\<close>\<close>
  | ResponseJson \<comment> \<open>\<^verbatim>\<open>response.json()\<close>\<close>
  | RequestCameraPermissions
  | ConsoleLog string js_value
  | ConsoleError string "js_error option"
  | SetTimeout nat

record app_state =
  hasPermission :: "bool option"
  cameraReady :: bool
  currentMode :: string
  message :: js_value
  isProcessing :: bool
  cameraRef :: bool
  trace :: "effect list"

definition initialState :: app_state where
  "initialState = \<lparr>hasPermission = None, cameraReady = False, currentMode = ''passive'',
     message = JStr ''Initializing app...'', isProcessing = False, cameraRef = False,
     trace = []\<rparr>"

definition emit :: "effect \<Rightarrow> app_state \<Rightarrow> app_state" where
  "emit ev s = s\<lparr>trace := trace s @ [ev]\<rparr>"

text \<open>\<^verbatim>\<open>speak\<close> (lines 184 to 191) and \<^verbatim>\<open>updateMessage\<close> (lines 32 to 37).\<close>

definition speechOptions :: js_value where
  "speechOptions = JObj [(''language'', JStr ''en-US''), (''rate'', JNum 1), (''pitch'', JNum 1)]"

definition speak :: "js_value \<Rightarrow> app_state \<Rightarrow> app_state" where
  "speak t s = emit (SpeechSpeak t speechOptions) (emit SpeechStop s)"

definition updateMessage :: "js_value \<Rightarrow> bool \<Rightarrow> app_state \<Rightarrow> app_state" where
  "updateMessage msg shouldSpeak s =
     (if shouldSpeak then speak msg (s\<lparr>message := msg\<rparr>) else s\<lparr>message := msg\<rparr>)"

section \<open>The capture pipeline: processImage\<close>

definition cameraNotReadyMessage :: string where
  "cameraNotReadyMessage = ''Camera not ready. Please wait or refresh the app.''"

definition analyzingMessage :: string where
  "analyzingMessage = ''Analyzing image, please wait...''"

definition fallbackDescription :: string where
  "fallbackDescription = ''No clear description was generated. Please try again.''"

definition pictureOptions :: js_value where
  "pictureOptions = JObj [(''base64'', JBool True), (''quality'', JNum (7 / 10)),
     (''allowsEditing'', JBool False), (''exif'', JBool False)]"

text \<open>The payload (lines 133 to 148), the URL (lines 150 to 151) and the options of
  the \<^verbatim>\<open>fetch\<close> (lines 153 to 157).\<close>

definition build_payload :: "string \<Rightarrow> js_value \<Rightarrow> js_value" where
  "build_payload prompt base64ImageData =
     JObj [(''contents'', JArr [
       JObj [(''role'', JStr ''user''),
             (''parts'', JArr [
                JObj [(''text'', JStr prompt)],
                JObj [(''inlineData'',
                   JObj [(''mimeType'', JStr ''image/jpeg''), (''data'', base64ImageData)])]])]])]"

definition apiKey :: string where
  "apiKey = ''{insert here}''"

definition apiUrl :: string where
  "apiUrl = ''https://generativelanguage.googleapis.com/v1beta/models/gemini-2.0-flash:generateContent?key='' @ apiKey"

definition fetchOptions :: "js_value \<Rightarrow> request" where
  "fetchOptions payload =
     \<lparr>httpMethod = ''POST'', headers = [(''Content-Type'', ''application/json'')], body = payload\<rparr>"

text \<open>
  Lines 161 to 168. The condition re-reads \<^verbatim>\<open>result.candidates\<close>,
  \<^verbatim>\<open>result.candidates[0].content\<close> and \<^verbatim>\<open>result.candidates[0].content.parts\<close> from
  \<^verbatim>\<open>result\<close> in each conjunct, left to right, and stops at the first falsy one. The
  initial value of \<^verbatim>\<open>description\<close> (line 161) is overwritten on both branches.
\<close>

definition candidates_of :: "js_engine \<Rightarrow> js_value \<Rightarrow> js_error + js_value" where
  "candidates_of E result = get_field E result ''candidates''"

definition content_of :: "js_engine \<Rightarrow> js_value \<Rightarrow> js_error + js_value" where
  "content_of E result =
     bind_js (bind_js (candidates_of E result) (get_index0 E)) (\<lambda>c. get_field E c ''content'')"

definition parts_of :: "js_engine \<Rightarrow> js_value \<Rightarrow> js_error + js_value" where
  "parts_of E result = bind_js (content_of E result) (\<lambda>c. get_field E c ''parts'')"

definition candidate_guard :: "js_engine \<Rightarrow> js_value \<Rightarrow> js_error + bool" where
  "candidate_guard E result =
     and_js (truthy_js (candidates_of E result))
    (and_js (bind_js (candidates_of E result) (length_gt_zero E))
    (and_js (truthy_js (content_of E result))
    (and_js (truthy_js (parts_of E result))
            (bind_js (parts_of E result) (length_gt_zero E)))))"

definition describe_result :: "js_engine \<Rightarrow> js_value \<Rightarrow> js_error + js_value" where
  "describe_result E result =
     bind_js (candidate_guard E result) (\<lambda>ok.
       if ok then bind_js (bind_js (parts_of E result) (get_index0 E))
                    (\<lambda>part. get_field E part ''text'')
       else Inr (JStr fallbackDescription))"

text \<open>The \<^verbatim>\<open>catch\<close> block (lines 171 to 174) and the \<^verbatim>\<open>finally\<close> block (line 176).\<close>

definition failureMessage :: "js_error \<Rightarrow> string" where
  "failureMessage e = ''Failed to get description: '' @ err_message e @ ''. Please try again.''"

definition catch_block :: "js_error \<Rightarrow> app_state \<Rightarrow> app_state" where
  "catch_block e s =
     updateMessage (JStr (failureMessage e)) True
       (emit (ConsoleError ''Error during capture or API call:'' (Some e)) s)"

definition finally_block :: "app_state \<Rightarrow> app_state" where
  "finally_block s = s\<lparr>isProcessing := False\<rparr>"

text \<open>
  \<^verbatim>\<open>processImage\<close> is an \<^verbatim>\<open>async\<close> function with three \<^verbatim>\<open>await\<close>s. Each piece between
  two suspension points is a function on the state; \<open>pending\<close> names the suspension
  point and what the suspended closure holds: the mode of the render that created the
  handler (read at line 131, after the first \<^verbatim>\<open>await\<close>), and the response whose body is
  being parsed. The result \<open>None\<close> means the function has returned.
\<close>

record response =
  status :: nat \<comment> \<open>the HTTP status, which the code never reads\<close>
  json :: "js_error + js_value" \<comment> \<open>what \<^verbatim>\<open>response.json()\<close> settles to\<close>

datatype pending = AwaitPhoto string | AwaitFetch | AwaitJson response

definition processImage_start :: "app_state \<Rightarrow> pending option \<times> app_state" where
  "processImage_start s =
     (if \<not> cameraReady s \<or> \<not> cameraRef s
      then (None, updateMessage (JStr cameraNotReadyMessage) True s)
      else (Some (AwaitPhoto (currentMode s)),
            emit (TakePicture pictureOptions)
              (emit SpeechStop
                (updateMessage (JStr analyzingMessage) False (s\<lparr>isProcessing := True\<rparr>)))))"

definition after_photo ::
  "js_engine \<Rightarrow> string \<Rightarrow> js_error + js_value \<Rightarrow> app_state \<Rightarrow> pending option \<times> app_state" where
  "after_photo E mode outcome s =
     (case bind_js outcome (\<lambda>photo. get_field E photo ''base64'') of
        Inl e \<Rightarrow> (None, finally_block (catch_block e s))
      | Inr base64ImageData \<Rightarrow>
          (Some AwaitFetch,
           emit (Fetch apiUrl
                   (fetchOptions (build_payload (getPromptForMode mode) base64ImageData))) s))"

definition after_fetch :: "js_error + response \<Rightarrow> app_state \<Rightarrow> pending option \<times> app_state" where
  "after_fetch outcome s =
     (case outcome of
        Inl e \<Rightarrow> (None, finally_block (catch_block e s))
      | Inr r \<Rightarrow> (Some (AwaitJson r), emit ResponseJson s))"

definition after_json :: "js_engine \<Rightarrow> js_error + js_value \<Rightarrow> app_state \<Rightarrow> app_state" where
  "after_json E outcome s =
     (case bind_js outcome (describe_result E) of
        Inl e \<Rightarrow> finally_block (catch_block e s)
      | Inr description \<Rightarrow> finally_block (updateMessage description True s))"

text \<open>
  The host of one invocation: the engine, what \<^verbatim>\<open>takePictureAsync\<close> settles to and what
  \<^verbatim>\<open>fetch\<close> settles to. \<open>resume\<close> runs the pipeline from a suspension point to the next,
  \<open>finish\<close> to its end, and \<open>processImage\<close> is an invocation that nothing
  interleaves with.
\<close>

record environment =
  engine :: js_engine
  photo :: "js_error + js_value"
  fetched :: "js_error + response"

fun resume :: "environment \<Rightarrow> pending \<Rightarrow> app_state \<Rightarrow> pending option \<times> app_state" where
  "resume env (AwaitPhoto mode) s = after_photo (engine env) mode (photo env) s"
| "resume env AwaitFetch s = after_fetch (fetched env) s"
| "resume env (AwaitJson r) s = (None, after_json (engine env) (json r) s)"

definition finish_json :: "environment \<Rightarrow> response \<Rightarrow> app_state \<Rightarrow> app_state" where
  "finish_json env r s = snd (resume env (AwaitJson r) s)"

definition finish_fetch :: "environment \<Rightarrow> app_state \<Rightarrow> app_state" where
  "finish_fetch env s =
     (case resume env AwaitFetch s of
        (Some (AwaitJson r), s') \<Rightarrow> finish_json env r s'
      | (_, s') \<Rightarrow> s')"

definition finish_photo :: "environment \<Rightarrow> string \<Rightarrow> app_state \<Rightarrow> app_state" where
  "finish_photo env mode s =
     (case resume env (AwaitPhoto mode) s of
        (Some AwaitFetch, s') \<Rightarrow> finish_fetch env s'
      | (_, s') \<Rightarrow> s')"

fun finish :: "environment \<Rightarrow> pending \<Rightarrow> app_state \<Rightarrow> app_state" where
  "finish env (AwaitPhoto mode) s = finish_photo env mode s"
| "finish env AwaitFetch s = finish_fetch env s"
| "finish env (AwaitJson r) s = finish_json env r s"

definition processImage :: "environment \<Rightarrow> app_state \<Rightarrow> app_state" where
  "processImage env s =
     (case processImage_start s of
        (None, s') \<Rightarrow> s'
      | (Some p, s') \<Rightarrow> finish env p s')"

section \<open>The stop control\<close>

text \<open>The handler of the stop button (lines 302 to 306).\<close>

definition stoppedMessage :: string where
  "stoppedMessage = ''Stopped all operations''"

definition stopButton :: "app_state \<Rightarrow> app_state" where
  "stopButton s =
     updateMessage (JStr stoppedMessage) True ((emit SpeechStop s)\<lparr>isProcessing := False\<rparr>)"

text \<open>Any number of resumptions of suspended invocations, each with the host outcome it
  meets, in the order they happen.\<close>

fun resumes :: "(environment \<times> pending) list \<Rightarrow> app_state \<Rightarrow> app_state" where
  "resumes [] s = s"
| "resumes ((env, p) # rest) s = resumes rest (snd (resume env p s))"

section \<open>The permission gate\<close>

text \<open>
  \<^verbatim>\<open>requestPermissions\<close> (lines 41 to 86), run once by the effect hook. Its inputs are
  whether the camera module offers \<^verbatim>\<open>requestCameraPermissionsAsync\<close> (line 49) and what
  that call settles to. It returns the state it leaves and the value of
  \<^verbatim>\<open>permissionMessage\<close> that the callback handed to \<^verbatim>\<open>setTimeout\<close> in the \<^verbatim>\<open>finally\<close> block
  captures. The \<^verbatim>\<open>return\<close> of line 58 leaves the \<^verbatim>\<open>try\<close> block, so the \<^verbatim>\<open>finally\<close> block
  runs after it as after every other path.
\<close>

definition requestingMessage :: string where
  "requestingMessage = ''Requesting camera and speech permissions...''"

definition moduleMissingMessage :: string where
  "moduleMissingMessage = ''Camera module not found or not functional.''"

definition grantedMessage :: string where
  "grantedMessage = ''Camera and Speech permissions granted. Select a mode and tap the button.''"

definition cameraDeniedMessage :: string where
  "cameraDeniedMessage = ''Camera permission not granted. Please enable it in settings. ''"

definition speechDeniedMessage :: string where
  "speechDeniedMessage = ''Speech permission not granted. Please enable it in settings.''"

definition permissionErrorMessage :: "js_error \<Rightarrow> string" where
  "permissionErrorMessage e = ''Error requesting permissions: '' @ err_message e @ ''.''"

definition requestPermissions ::
  "js_engine \<Rightarrow> bool \<Rightarrow> js_error + js_value \<Rightarrow> app_state \<Rightarrow> string \<times> app_state" where
  "requestPermissions E available outcome s0 =
     (let s = updateMessage (JStr requestingMessage) False s0;
          (permissionMessage, s') =
            (if available then
               (case bind_js outcome (\<lambda>cameraStatus. get_field E cameraStatus ''status'') of
                  Inl e \<Rightarrow>
                    (permissionErrorMessage e,
                     (emit (ConsoleError ''Error during permission request:'' (Some e))
                        (emit RequestCameraPermissions s))\<lparr>hasPermission := Some False\<rparr>)
                | Inr st \<Rightarrow>
                    (let cameraGranted = (st = JStr ''granted'');
                         s1 = emit (ConsoleLog ''Camera Permission Status:'' st)
                                (emit RequestCameraPermissions s);
                         speechGranted = True
                     in if cameraGranted \<and> speechGranted
                        then (grantedMessage,
                              s1\<lparr>hasPermission := Some True, currentMode := ''passive''\<rparr>)
                        else ((if \<not> cameraGranted then cameraDeniedMessage else [])
                                @ (if \<not> speechGranted then speechDeniedMessage else []),
                              s1\<lparr>hasPermission := Some False\<rparr>)))
             else
               (moduleMissingMessage,
                updateMessage (JStr moduleMissingMessage) True
                  ((emit (ConsoleError
                      ''Expo Camera module is not available or not linked correctly.'' None) s)
                   \<lparr>hasPermission := Some False\<rparr>)))
      in (permissionMessage, emit (SetTimeout 500) s'))"

text \<open>The callback of the timer (line 83), and the whole start-up: the request followed
  by the timer firing.\<close>

definition timerCallback :: "string \<Rightarrow> app_state \<Rightarrow> app_state" where
  "timerCallback permissionMessage s = updateMessage (JStr permissionMessage) True s"

definition permissionGate ::
  "js_engine \<Rightarrow> bool \<Rightarrow> js_error + js_value \<Rightarrow> app_state \<Rightarrow> app_state" where
  "permissionGate E available outcome s =
     (case requestPermissions E available outcome s of (m, s') \<Rightarrow> timerCallback m s')"

section \<open>Notions of the specification\<close>

text \<open>
  The well-formed response of the specification,
  \<^verbatim>\<open>{candidates: [{content: {parts: [{text: "X"}]}}]}\<close> with at least one candidate and at
  least one part: \<open>spec_wellformed_text\<close> returns the text \<^verbatim>\<open>X\<close> of the first
  candidate's first part, and \<open>None\<close> for a value of another shape.
\<close>

fun own_field :: "js_value \<Rightarrow> string \<Rightarrow> js_value option" where
  "own_field (JObj kvs) p = map_of kvs p"
| "own_field v p = None"

fun first_element :: "js_value \<Rightarrow> js_value option" where
  "first_element (JArr (x # xs)) = Some x"
| "first_element v = None"

fun string_of :: "js_value \<Rightarrow> string option" where
  "string_of (JStr x) = Some x"
| "string_of v = None"

definition spec_wellformed_text :: "js_value \<Rightarrow> string option" where
  "spec_wellformed_text r =
     Option.bind (own_field r ''candidates'') (\<lambda>cs.
     Option.bind (first_element cs) (\<lambda>c.
     Option.bind (own_field c ''content'') (\<lambda>ct.
     Option.bind (own_field ct ''parts'') (\<lambda>ps.
     Option.bind (first_element ps) (\<lambda>part.
     Option.bind (own_field part ''text'') string_of)))))"

text \<open>
  Responses without a usable candidate list, in the terms of the specification. The
  value of a property is \<^verbatim>\<open>undefined\<close> when the property is absent or the holder is not an
  object (\<open>field_value\<close>). A value has no items (\<open>no_items\<close>) when it is
  \<^verbatim>\<open>undefined\<close>, \<^verbatim>\<open>null\<close>, a boolean, a number, the empty string, an empty array, or an
  object whose \<^verbatim>\<open>length\<close> is not greater than 0; it has a first item (\<open>first_item\<close>) when
  it is a non-empty array, a non-empty string, or an object whose \<^verbatim>\<open>length\<close> is greater
  than 0 (its first item is then its property \<^verbatim>\<open>0\<close>). Whether a \<^verbatim>\<open>length\<close> that is a
  string, an array or an object is greater than 0 is the engine's decision.

  \<open>lacks_candidate_shape\<close>: the response is neither \<^verbatim>\<open>null\<close> nor \<^verbatim>\<open>undefined\<close>, and either
  its \<^verbatim>\<open>candidates\<close> has no items, or the first item of \<^verbatim>\<open>candidates\<close> is neither \<^verbatim>\<open>null\<close>
  nor \<^verbatim>\<open>undefined\<close> and its \<^verbatim>\<open>content\<close> is absent or falsy or the \<^verbatim>\<open>parts\<close> of its
  \<^verbatim>\<open>content\<close> has no items.
\<close>

fun is_nullish :: "js_value \<Rightarrow> bool" where
  "is_nullish JUndefined = True"
| "is_nullish JNull = True"
| "is_nullish v = False"

definition field_value :: "js_value \<Rightarrow> string \<Rightarrow> js_value" where
  "field_value v p = (case own_field v p of None \<Rightarrow> JUndefined | Some x \<Rightarrow> x)"

fun not_positive :: "js_engine \<Rightarrow> js_value \<Rightarrow> bool" where
  "not_positive E JUndefined = True"
| "not_positive E JNull = True"
| "not_positive E (JBool b) = (\<not> b)"
| "not_positive E (JNum x) = (x \<le> 0)"
| "not_positive E v = (coerceGtZero E v = Inr False)"

fun positive :: "js_engine \<Rightarrow> js_value \<Rightarrow> bool" where
  "positive E JUndefined = False"
| "positive E JNull = False"
| "positive E (JBool b) = b"
| "positive E (JNum x) = (0 < x)"
| "positive E v = (coerceGtZero E v = Inr True)"

fun no_items :: "js_engine \<Rightarrow> js_value \<Rightarrow> bool" where
  "no_items E (JArr xs) = (xs = [])"
| "no_items E (JStr s) = (s = [])"
| "no_items E (JObj kvs) = not_positive E (field_value (JObj kvs) ''length'')"
| "no_items E v = True"

fun first_item :: "js_engine \<Rightarrow> js_value \<Rightarrow> js_value option" where
  "first_item E (JArr (x # xs)) = Some x"
| "first_item E (JStr (c # cs)) = Some (JStr [c])"
| "first_item E (JObj kvs) =
     (if positive E (field_value (JObj kvs) ''length'')
      then Some (field_value (JObj kvs) ''0'') else None)"
| "first_item E v = None"

definition lacks_candidate_shape :: "js_engine \<Rightarrow> js_value \<Rightarrow> bool" where
  "lacks_candidate_shape E r =
     (\<not> is_nullish r \<and>
      (no_items E (field_value r ''candidates'') \<or>
       (case first_item E (field_value r ''candidates'') of
          None \<Rightarrow> False
        | Some c \<Rightarrow>
            \<not> is_nullish c \<and>
            (\<not> truthy (field_value c ''content'') \<or>
             no_items E (field_value (field_value c ''content'') ''parts'')))))"

text \<open>
  The outcome of the \<^verbatim>\<open>try\<close> block of \<^verbatim>\<open>processImage\<close> as a function of the host alone:
  the first exception thrown (by the capture, the read of \<^verbatim>\<open>photo.base64\<close>, the fetch,
  the parsing of the body or the reading of the parsed value), or the description.
  \<open>result_text\<close> is the text that outcome stands for.
\<close>

definition pipeline_outcome :: "environment \<Rightarrow> js_error + js_value" where
  "pipeline_outcome env =
     bind_js (bind_js (photo env) (\<lambda>ph. get_field (engine env) ph ''base64'')) (\<lambda>b.
     bind_js (fetched env) (\<lambda>r.
     bind_js (json r) (describe_result (engine env))))"

definition result_text :: "js_error + js_value \<Rightarrow> js_value" where
  "result_text outcome = (case outcome of Inl e \<Rightarrow> JStr (failureMessage e) | Inr d \<Rightarrow> d)"

fun is_fetch :: "effect \<Rightarrow> bool" where
  "is_fetch (Fetch url req) = True"
| "is_fetch ev = False"

fun is_speak :: "effect \<Rightarrow> bool" where
  "is_speak (SpeechSpeak t opts) = True"
| "is_speak ev = False"

fun is_timer :: "effect \<Rightarrow> bool" where
  "is_timer (SetTimeout n) = True"
| "is_timer ev = False"

fun is_console_error :: "effect \<Rightarrow> bool" where
  "is_console_error (ConsoleError label e) = True"
| "is_console_error ev = False"

section \<open>Sample inputs\<close>

text \<open>An engine with the TypeError messages of V8 (its coercion is a stand-in that no
  sample reaches), a state in which the camera is ready, and hosts for the paths of the
  pipeline.\<close>

definition sampleEngine :: js_engine where
  "sampleEngine = \<lparr>typeErrorMessage = (\<lambda>v p.
       ''Cannot read properties of '' @ (if v = JNull then ''null'' else ''undefined'')
         @ '' (reading '' @ [CHR 0x27] @ p @ [CHR 0x27] @ '')''),
     coerceGtZero = (\<lambda>v. Inr False)\<rparr>"

definition readyState :: app_state where
  "readyState = initialState\<lparr>hasPermission := Some True, cameraReady := True, cameraRef := True\<rparr>"

definition samplePhoto :: js_value where
  "samplePhoto = JObj [(''uri'', JStr ''file:///photo.jpg''), (''width'', JNum 640),
     (''height'', JNum 480), (''base64'', JStr ''/9j/4AAQSkZJRg=='')]"

definition hostWith :: "nat \<Rightarrow> js_error + js_value \<Rightarrow> environment" where
  "hostWith st parsed = \<lparr>engine = sampleEngine, photo = Inr samplePhoto,
     fetched = Inr \<lparr>status = st, json = parsed\<rparr>\<rparr>"

definition room204 :: js_value where
  "room204 = JObj [(''candidates'', JArr [JObj [(''content'',
     JObj [(''parts'', JArr [JObj [(''text'', JStr ''Room 204'')]]), (''role'', JStr ''model'')])]])]"

definition emptyCandidates :: js_value where
  "emptyCandidates = JObj [(''candidates'', JArr [])]"

definition errorBody :: js_value where
  "errorBody = JObj [(''error'', JObj [(''code'', JNum 500), (''message'', JStr ''Internal error'')])]"

definition timeoutHost :: environment where
  "timeoutHost = \<lparr>engine = sampleEngine, photo = Inr samplePhoto,
     fetched = Inl (JsError ''timeout'')\<rparr>"

definition captureFailsHost :: environment where
  "captureFailsHost = \<lparr>engine = sampleEngine, photo = Inl (JsError ''Camera is not running''),
     fetched = Inr \<lparr>status = 200, json = Inr room204\<rparr>\<rparr>"

section \<open>The pipeline step by step\<close>

lemmas step_defs = emit_def speak_def updateMessage_def catch_block_def finally_block_def

lemmas describe_defs = describe_result_def candidate_guard_def candidates_of_def content_of_def
  parts_of_def bind_js_def and_js_def truthy_js_def

lemmas sample_defs = hostWith_def readyState_def initialState_def samplePhoto_def sampleEngine_def
  room204_def emptyCandidates_def errorBody_def timeoutHost_def captureFailsHost_def

lemma after_json_trace:
  "trace (after_json E outcome s) =
     trace s @
     (case bind_js outcome (describe_result E) of
        Inl e \<Rightarrow> [ConsoleError ''Error during capture or API call:'' (Some e)]
      | Inr d \<Rightarrow> []) @
     [SpeechStop, SpeechSpeak (result_text (bind_js outcome (describe_result E))) speechOptions]"
  by (simp add: after_json_def step_defs result_text_def split: sum.splits)

lemma after_json_flag: "isProcessing (after_json E outcome s) = False"
  by (simp add: after_json_def step_defs split: sum.splits)

lemma after_json_message:
  "message (after_json E outcome s) = result_text (bind_js outcome (describe_result E))"
  by (simp add: after_json_def step_defs result_text_def split: sum.splits)

lemma finish_flag: "isProcessing (finish env p s) = False"
  by (cases p)
     (simp_all add: finish_photo_def finish_fetch_def finish_json_def after_photo_def
        after_fetch_def after_json_flag step_defs
        split: sum.splits prod.splits option.splits pending.splits)

lemma finish_photo_message:
  "message (finish_photo env mode s) = result_text (pipeline_outcome env)"
  by (simp add: finish_photo_def finish_fetch_def finish_json_def after_photo_def
        after_fetch_def after_json_message step_defs pipeline_outcome_def result_text_def
        bind_js_def
        split: sum.splits prod.splits option.splits pending.splits)

text \<open>Everything the pipeline asks of the host after the capture was started, in order.\<close>

lemma finish_photo_trace:
  "trace (finish_photo env mode s) =
     trace s @
     (case bind_js (photo env) (\<lambda>ph. get_field (engine env) ph ''base64'') of
        Inl e \<Rightarrow> []
      | Inr b \<Rightarrow>
          Fetch apiUrl (fetchOptions (build_payload (getPromptForMode mode) b)) #
          (case fetched env of Inl e \<Rightarrow> [] | Inr r \<Rightarrow> [ResponseJson])) @
     (case pipeline_outcome env of
        Inl e \<Rightarrow> [ConsoleError ''Error during capture or API call:'' (Some e)]
      | Inr d \<Rightarrow> []) @
     [SpeechStop, SpeechSpeak (result_text (pipeline_outcome env)) speechOptions]"
  by (simp add: finish_photo_def finish_fetch_def finish_json_def after_photo_def
        after_fetch_def after_json_trace step_defs pipeline_outcome_def result_text_def
        bind_js_def
        split: sum.splits prod.splits option.splits pending.splits)

lemma processImage_ready:
  "cameraReady s \<Longrightarrow> cameraRef s \<Longrightarrow>
   processImage env s =
     finish_photo env (currentMode s)
       (emit (TakePicture pictureOptions)
         (emit SpeechStop
           (updateMessage (JStr analyzingMessage) False (s\<lparr>isProcessing := True\<rparr>))))"
  by (simp add: processImage_def processImage_start_def)

lemma processImage_ready_trace:
  "cameraReady s \<Longrightarrow> cameraRef s \<Longrightarrow>
   trace (processImage env s) =
     trace s @ [SpeechStop, TakePicture pictureOptions] @
     (case bind_js (photo env) (\<lambda>ph. get_field (engine env) ph ''base64'') of
        Inl e \<Rightarrow> []
      | Inr b \<Rightarrow>
          Fetch apiUrl (fetchOptions (build_payload (getPromptForMode (currentMode s)) b)) #
          (case fetched env of Inl e \<Rightarrow> [] | Inr r \<Rightarrow> [ResponseJson])) @
     (case pipeline_outcome env of
        Inl e \<Rightarrow> [ConsoleError ''Error during capture or API call:'' (Some e)]
      | Inr d \<Rightarrow> []) @
     [SpeechStop, SpeechSpeak (result_text (pipeline_outcome env)) speechOptions]"
  by (simp add: processImage_ready finish_photo_trace step_defs)

lemma processImage_ready_message:
  "cameraReady s \<Longrightarrow> cameraRef s \<Longrightarrow>
   message (processImage env s) = result_text (pipeline_outcome env)"
  by (simp add: processImage_ready finish_photo_message)

lemma processImage_ready_flag:
  "cameraReady s \<Longrightarrow> cameraRef s \<Longrightarrow> isProcessing (processImage env s) = False"
  using finish_flag [of env "AwaitPhoto (currentMode s)"] by (simp add: processImage_ready)

lemma room204_outcome:
  "pipeline_outcome (hostWith 200 (Inr room204)) = Inr (JStr ''Room 204'')"
  by (simp add: pipeline_outcome_def describe_defs sample_defs)

section \<open>The postcondition of processImage\<close>

text \<open>
  Claim C1. An invocation of \<^verbatim>\<open>processImage\<close> that passes the camera check and runs to
  completion, whatever the capture, the fetch and the parsing of the body settle to,
  leaves \<open>isProcessing\<close> false; the text it resulted in (the extracted description or the
  fallback string when the \<^verbatim>\<open>try\<close> block ran through, the failure message when something
  in it threw) is the displayed message and is what the last \<^verbatim>\<open>Speech.speak\<close> of the
  invocation speaks, after a \<^verbatim>\<open>Speech.stop\<close>.
\<close>

theorem processImage_postcondition:
  assumes "cameraReady s" and "cameraRef s"
  shows "isProcessing (processImage env s) = False \<and>
         message (processImage env s) = result_text (pipeline_outcome env) \<and>
         (\<exists>pre. trace (processImage env s) =
            trace s @ pre @
            [SpeechStop, SpeechSpeak (result_text (pipeline_outcome env)) speechOptions])"
proof -
  have "\<exists>pre. trace (processImage env s) =
          trace s @ pre @
          [SpeechStop, SpeechSpeak (result_text (pipeline_outcome env)) speechOptions]"
    unfolding processImage_ready_trace [OF assms] by (metis append.assoc)
  with assms show ?thesis
    by (simp add: processImage_ready_flag processImage_ready_message)
qed

text \<open>The scenario of the specification: the service answers \<^verbatim>\<open>Room 204\<close>.\<close>

theorem processImage_postcondition_witness:
  "cameraReady readyState \<and> cameraRef readyState \<and>
   isProcessing (processImage (hostWith 200 (Inr room204)) readyState) = False \<and>
   message (processImage (hostWith 200 (Inr room204)) readyState) = JStr ''Room 204'' \<and>
   (\<exists>pre. trace (processImage (hostWith 200 (Inr room204)) readyState) =
      trace readyState @ pre @ [SpeechStop, SpeechSpeak (JStr ''Room 204'') speechOptions])"
proof -
  have ready: "cameraReady readyState" "cameraRef readyState"
    by (simp_all add: readyState_def)
  from processImage_postcondition [OF ready, of "hostWith 200 (Inr room204)"] ready
  show ?thesis by (simp add: room204_outcome result_text_def)
qed

section \<open>The camera check\<close>

text \<open>
  Claim C2. When \<^verbatim>\<open>processImage\<close> is invoked while \<open>cameraReady\<close> is false or there is no
  camera reference, it returns at once: it sets the message to the camera-not-ready
  text and announces it (a \<^verbatim>\<open>Speech.stop\<close>, then a \<^verbatim>\<open>Speech.speak\<close> of that text), and
  changes nothing else. In particular \<open>isProcessing\<close> keeps its value and no \<^verbatim>\<open>fetch\<close> is
  issued.
\<close>

theorem processImage_camera_not_ready:
  assumes "\<not> cameraReady s \<or> \<not> cameraRef s"
  shows "processImage env s =
           s\<lparr>message := JStr ''Camera not ready. Please wait or refresh the app.'',
             trace := trace s @
               [SpeechStop,
                SpeechSpeak (JStr ''Camera not ready. Please wait or refresh the app.'')
                  speechOptions]\<rparr> \<and>
         fst (processImage_start s) = None \<and>
         isProcessing (processImage env s) = isProcessing s \<and>
         filter is_fetch (trace (processImage env s)) = filter is_fetch (trace s)"
  using assms
  by (auto simp add: processImage_def processImage_start_def step_defs cameraNotReadyMessage_def)

theorem processImage_camera_not_ready_witness:
  "\<not> cameraReady initialState \<and>
   message (processImage (hostWith 200 (Inr room204)) initialState) =
     JStr ''Camera not ready. Please wait or refresh the app.'' \<and>
   trace (processImage (hostWith 200 (Inr room204)) initialState) =
     [SpeechStop,
      SpeechSpeak (JStr ''Camera not ready. Please wait or refresh the app.'') speechOptions] \<and>
   isProcessing (processImage (hostWith 200 (Inr room204)) initialState) = False"
proof -
  have notReady: "\<not> cameraReady initialState \<or> \<not> cameraRef initialState"
    by (simp add: initialState_def)
  from processImage_camera_not_ready [OF notReady, of "hostWith 200 (Inr room204)"] notReady
  show ?thesis by (simp add: initialState_def)
qed

section \<open>Reading the parsed response\<close>

lemma own_field_SomeD: "own_field v p = Some x \<Longrightarrow> \<exists>kvs. v = JObj kvs \<and> map_of kvs p = Some x"
  by (cases v) simp_all

lemma first_element_SomeD: "first_element v = Some x \<Longrightarrow> \<exists>xs. v = JArr (x # xs)"
  by (cases v rule: first_element.cases) simp_all

lemma string_of_SomeD: "string_of v = Some x \<Longrightarrow> v = JStr x"
  by (cases v) simp_all

lemma wellformed_shape:
  assumes "spec_wellformed_text r = Some X"
  shows "\<exists>kvs cs ckvs tkvs ps pkvs.
           r = JObj kvs \<and> map_of kvs ''candidates'' = Some (JArr (JObj ckvs # cs)) \<and>
           map_of ckvs ''content'' = Some (JObj tkvs) \<and>
           map_of tkvs ''parts'' = Some (JArr (JObj pkvs # ps)) \<and>
           map_of pkvs ''text'' = Some (JStr X)"
proof -
  from assms obtain cands c ct pts part t where a:
    "own_field r ''candidates'' = Some cands" "first_element cands = Some c"
    "own_field c ''content'' = Some ct" "own_field ct ''parts'' = Some pts"
    "first_element pts = Some part" "own_field part ''text'' = Some t" "string_of t = Some X"
    unfolding spec_wellformed_text_def by (auto simp: bind_eq_Some_conv)
  from a(1) obtain kvs where 1: "r = JObj kvs" "map_of kvs ''candidates'' = Some cands"
    using own_field_SomeD by blast
  from a(2) obtain cs where 2: "cands = JArr (c # cs)" using first_element_SomeD by blast
  from a(3) obtain ckvs where 3: "c = JObj ckvs" "map_of ckvs ''content'' = Some ct"
    using own_field_SomeD by blast
  from a(4) obtain tkvs where 4: "ct = JObj tkvs" "map_of tkvs ''parts'' = Some pts"
    using own_field_SomeD by blast
  from a(5) obtain ps where 5: "pts = JArr (part # ps)" using first_element_SomeD by blast
  from a(6) obtain pkvs where 6: "part = JObj pkvs" "map_of pkvs ''text'' = Some t"
    using own_field_SomeD by blast
  from a(7) have 7: "t = JStr X" by (rule string_of_SomeD)
  from 1 2 3 4 5 6 7 show ?thesis by blast
qed


lemma describe_wellformed:
  assumes "spec_wellformed_text r = Some X"
  shows "describe_result E r = Inr (JStr X)"
proof -
  from wellformed_shape [OF assms] obtain kvs cs ckvs tkvs ps pkvs where
    "r = JObj kvs" "map_of kvs ''candidates'' = Some (JArr (JObj ckvs # cs))"
    "map_of ckvs ''content'' = Some (JObj tkvs)"
    "map_of tkvs ''parts'' = Some (JArr (JObj pkvs # ps))"
    "map_of pkvs ''text'' = Some (JStr X)"
    by blast
  then show ?thesis by (simp add: describe_defs)
qed

text \<open>
  The guard of lines 162 to 164 is false, with no read throwing, on the responses without
  a usable candidate list and on no others (\<open>guard_false_iff_lacking\<close>); none of them
  has the well-formed shape (\<open>lacking_not_wellformed\<close>).
\<close>

lemma get_field_value:
  "\<not> is_nullish v \<Longrightarrow> get_field E v p = Inr (field_value v p)"
  by (cases v) (simp_all add: field_value_def)

lemma get_field_nullish:
  "is_nullish v \<Longrightarrow> \<exists>e. get_field E v p = Inl e"
  by (cases v) simp_all

lemma truthy_not_nullish: "truthy v \<Longrightarrow> \<not> is_nullish v"
  by (cases v) simp_all

lemma gt_zero_false: "(gt_zero E x = Inr False) = not_positive E x"
  by (cases x) auto

lemma gt_zero_true: "(gt_zero E x = Inr True) = positive E x"
  by (cases x) auto

lemma items_guard_false: "(and_js (Inr (truthy v)) (length_gt_zero E v) = Inr False) = no_items E v"
proof (cases v)
  case (JObj kvs)
  then show ?thesis
    by (simp add: and_js_def field_value_def gt_zero_false)
qed (auto simp add: and_js_def split: bool.splits)

lemma items_guard_true:
  "(and_js (Inr (truthy v)) (length_gt_zero E v) = Inr True) = (\<exists>c. first_item E v = Some c \<and> get_index0 E v = Inr c)"
proof (cases v)
  case (JObj kvs)
  then show ?thesis
    by (simp add: and_js_def field_value_def gt_zero_true)
next
  case (JArr xs)
  then show ?thesis by (cases xs) (simp_all add: and_js_def)
next
  case (JStr s)
  then show ?thesis by (cases s) (simp_all add: and_js_def)
qed (simp_all add: and_js_def split: bool.splits)


lemma first_item_index: "first_item E v = Some c \<Longrightarrow> get_index0 E v = Inr c"
proof (cases v)
  case (JArr xs)
  assume "first_item E v = Some c"
  with JArr show ?thesis by (cases xs) simp_all
next
  case (JStr s)
  assume "first_item E v = Some c"
  with JStr show ?thesis by (cases s) simp_all
next
  case (JObj kvs)
  assume "first_item E v = Some c"
  with JObj show ?thesis by (auto simp add: field_value_def split: if_splits)
qed simp_all

lemma items_guard_throws:
  assumes "and_js (Inr (truthy v)) (length_gt_zero E v) = Inl e"
  shows "\<not> no_items E v \<and> first_item E v = None"
proof -
  have "first_item E v = None"
  proof (cases "first_item E v")
    case (Some c)
    with first_item_index [OF Some] items_guard_true [of v E] assms show ?thesis by simp
  qed simp
  with items_guard_false [of v E] assms show ?thesis by simp
qed

lemma and_js_assoc: "and_js a (and_js b c) = and_js (and_js a b) c"
  by (simp add: and_js_def split: sum.splits bool.splits)

lemma guard_false_iff_lacking:
  "(candidate_guard E r = Inr False) = lacks_candidate_shape E r"
proof (cases "is_nullish r")
  case True
  then obtain e where "get_field E r ''candidates'' = Inl e"
    using get_field_nullish by blast
  with True show ?thesis
    by (simp add: describe_defs lacks_candidate_shape_def)
next
  case False
  define v where "v = field_value r ''candidates''"
  define g where "g = and_js (Inr (truthy v)) (length_gt_zero E v)"
  define rest where "rest =
    and_js (truthy_js (content_of E r))
      (and_js (truthy_js (parts_of E r)) (bind_js (parts_of E r) (length_gt_zero E)))"
  have cands: "candidates_of E r = Inr v"
    unfolding candidates_of_def v_def by (rule get_field_value [OF False])
  have guard: "candidate_guard E r = and_js g rest"
    unfolding candidate_guard_def g_def rest_def cands
    by (simp add: and_js_assoc truthy_js_def bind_js_def)
  have lacks: "lacks_candidate_shape E r =
      (no_items E v \<or>
       (case first_item E v of
          None \<Rightarrow> False
        | Some c \<Rightarrow>
            \<not> is_nullish c \<and>
            (\<not> truthy (field_value c ''content'') \<or>
             no_items E (field_value (field_value c ''content'') ''parts''))))"
    unfolding lacks_candidate_shape_def v_def using False by simp
  show ?thesis
  proof (cases g)
    case (Inl e)
    then have "\<not> no_items E v" "first_item E v = None"
      using items_guard_throws [of v E e] unfolding g_def by simp_all
    with Inl show ?thesis by (simp add: guard lacks and_js_def)
  next
    case (Inr b)
    show ?thesis
    proof (cases b)
      case False
      with Inr have "no_items E v"
        using items_guard_false [of v E] unfolding g_def by simp
      with Inr False show ?thesis by (simp add: guard lacks and_js_def)
    next
      case True
      with Inr obtain c where c: "first_item E v = Some c" "get_index0 E v = Inr c"
        using items_guard_true [of v E] unfolding g_def by auto
      from Inr True have ni: "\<not> no_items E v"
        using items_guard_false [of v E] unfolding g_def by simp
      have g: "candidate_guard E r = rest"
        using Inr True by (simp add: guard and_js_def)
      show ?thesis
      proof (cases "is_nullish c")
        case True
        then obtain e where "get_field E c ''content'' = Inl e"
          using get_field_nullish by blast
        then have "rest = Inl e"
          unfolding rest_def content_of_def cands
          by (simp add: c bind_js_def truthy_js_def and_js_def)
        with True show ?thesis by (simp add: g lacks c ni)
      next
        case False
        define y where "y = field_value c ''content''"
        have content: "content_of E r = Inr y"
          unfolding content_of_def cands y_def
          by (simp add: c bind_js_def get_field_value [OF False])
        show ?thesis
        proof (cases "truthy y")
          case False
          then have "rest = Inr False"
            unfolding rest_def content by (simp add: truthy_js_def bind_js_def and_js_def)
          with False \<open>\<not> is_nullish c\<close> show ?thesis
            by (simp add: g lacks c ni y_def)
        next
          case True
          then have ny: "\<not> is_nullish y" by (rule truthy_not_nullish)
          have parts: "parts_of E r = Inr (field_value y ''parts'')"
            unfolding parts_of_def content by (simp add: bind_js_def get_field_value [OF ny])
          have "rest = and_js (Inr (truthy (field_value y ''parts'')))
              (length_gt_zero E (field_value y ''parts''))"
            unfolding rest_def content parts using True
            by (simp add: truthy_js_def bind_js_def and_js_def)
          with True \<open>\<not> is_nullish c\<close> show ?thesis
            using items_guard_false [of "field_value y ''parts''" E]
            by (simp add: g lacks c ni y_def del: no_items.simps)
        qed
      qed
    qed
  qed
qed

lemma describe_lacking:
  assumes "lacks_candidate_shape E r"
  shows "describe_result E r = Inr (JStr fallbackDescription)"
proof -
  from assms have "candidate_guard E r = Inr False"
    by (simp add: guard_false_iff_lacking)
  then show ?thesis by (simp add: describe_result_def bind_js_def)
qed

lemma guard_wellformed:
  assumes "spec_wellformed_text r = Some X"
  shows "candidate_guard E r = Inr True"
proof -
  from wellformed_shape [OF assms] obtain kvs cs ckvs tkvs ps pkvs where
    "r = JObj kvs" "map_of kvs ''candidates'' = Some (JArr (JObj ckvs # cs))"
    "map_of ckvs ''content'' = Some (JObj tkvs)"
    "map_of tkvs ''parts'' = Some (JArr (JObj pkvs # ps))"
    "map_of pkvs ''text'' = Some (JStr X)"
    by blast
  then show ?thesis by (simp add: describe_defs)
qed

lemma lacking_not_wellformed:
  assumes "lacks_candidate_shape E r"
  shows "spec_wellformed_text r = None"
proof (cases "spec_wellformed_text r")
  case None
  then show ?thesis .
next
  case (Some X)
  from guard_wellformed [OF Some, of E] assms show ?thesis
    by (simp add: guard_false_iff_lacking [symmetric])
qed

lemma lacking_examples:
  "lacks_candidate_shape E (JObj [(''candidates'', JNum 5)])"
  "lacks_candidate_shape E (JObj [(''candidates'', JBool True)])"
  "lacks_candidate_shape E (JObj [(''candidates'', JStr ''abc'')])"
  "lacks_candidate_shape E (JObj [(''candidates'', JObj [])])"
  "lacks_candidate_shape E (JObj [(''candidates'', JArr [])])"
  "lacks_candidate_shape E (JNum 5)"
  "lacks_candidate_shape E (JObj [(''error'', JObj [(''code'', JNum 500)])])"
  "lacks_candidate_shape E (JObj [(''candidates'', JArr [JObj [(''content'', JObj [(''parts'', JNum 5)])]])])"
  "lacks_candidate_shape E (JObj [(''candidates'', JArr [JObj [(''finishReason'', JStr ''SAFETY'')]])])"
  by (simp_all add: lacks_candidate_shape_def field_value_def)

lemma processImage_ready_suffix:
  assumes "cameraReady s" and "cameraRef s"
  shows "\<exists>pre. trace (processImage env s) =
          trace s @ pre @
          [SpeechStop, SpeechSpeak (result_text (pipeline_outcome env)) speechOptions]"
  unfolding processImage_ready_trace [OF assms] by (metis append.assoc)

lemma pipeline_outcome_parsed:
  "photo env = Inr ph \<Longrightarrow> get_field (engine env) ph ''base64'' = Inr b \<Longrightarrow>
   fetched env = Inr resp \<Longrightarrow> json resp = Inr r \<Longrightarrow>
   pipeline_outcome env = describe_result (engine env) r"
  by (simp add: pipeline_outcome_def bind_js_def)

lemma processImage_ready_console:
  assumes "cameraReady s" and "cameraRef s"
  shows "filter is_console_error (trace (processImage env s)) =
     filter is_console_error (trace s) @
     (case pipeline_outcome env of
        Inl e \<Rightarrow> [ConsoleError ''Error during capture or API call:'' (Some e)]
      | Inr d \<Rightarrow> [])"
  unfolding processImage_ready_trace [OF assms] by (simp split: sum.splits)

section \<open>The well-formed response\<close>

text \<open>
  Claim C3. For every response whose parsed body has the shape
  \<^verbatim>\<open>{candidates: [{content: {parts: [{text: "X"}]}}]}\<close>, with at least one candidate and
  at least one part (other properties and further candidates or parts may be present),
  lines 161 to 168 extract exactly the string \<^verbatim>\<open>X\<close>, the text of the first part of the
  first candidate, and \<^verbatim>\<open>processImage\<close> displays and speaks it.
\<close>

theorem wellformed_response_extracted:
  assumes "spec_wellformed_text r = Some X"
    and "cameraReady s" and "cameraRef s"
    and "photo env = Inr ph" and "get_field (engine env) ph ''base64'' = Inr b"
    and "fetched env = Inr resp" and "json resp = Inr r"
  shows "describe_result (engine env) r = Inr (JStr X) \<and>
         message (processImage env s) = JStr X \<and>
         (\<exists>pre. trace (processImage env s) =
            trace s @ pre @ [SpeechStop, SpeechSpeak (JStr X) speechOptions])"
proof -
  have d: "describe_result (engine env) r = Inr (JStr X)"
    using assms(1) by (rule describe_wellformed)
  have o: "pipeline_outcome env = Inr (JStr X)"
    using pipeline_outcome_parsed [OF assms(4-7)] d by simp
  from processImage_ready_suffix [OF assms(2,3), of env]
    processImage_ready_message [OF assms(2,3), of env] d o
  show ?thesis by (simp add: result_text_def)
qed

theorem wellformed_response_extracted_witness:
  "spec_wellformed_text room204 = Some ''Room 204'' \<and>
   describe_result sampleEngine room204 = Inr (JStr ''Room 204'') \<and>
   message (processImage (hostWith 200 (Inr room204)) readyState) = JStr ''Room 204''"
proof -
  have w: "spec_wellformed_text room204 = Some ''Room 204''"
    by (simp add: spec_wellformed_text_def room204_def)
  have ready: "cameraReady readyState" "cameraRef readyState"
    by (simp_all add: readyState_def)
  have host: "photo (hostWith 200 (Inr room204)) = Inr samplePhoto"
    "get_field (engine (hostWith 200 (Inr room204))) samplePhoto ''base64'' = Inr (JStr ''/9j/4AAQSkZJRg=='')"
    "fetched (hostWith 200 (Inr room204)) = Inr \<lparr>status = 200, json = Inr room204\<rparr>"
    "json \<lparr>status = 200, json = Inr room204\<rparr> = Inr room204"
    "engine (hostWith 200 (Inr room204)) = sampleEngine"
    by (simp_all add: hostWith_def samplePhoto_def)
  from wellformed_response_extracted [OF w ready host(1-4)] w host(5)
  show ?thesis by simp
qed

section \<open>Responses without a candidate list\<close>

text \<open>
  Claim C4, as amended. For every parsed response on which the guard of lines 162 to
  164 fails without a read throwing, \<^verbatim>\<open>processImage\<close> substitutes the fixed string
  \<^verbatim>\<open>No clear description was generated. Please try again.\<close>, which it displays and
  speaks; the \<^verbatim>\<open>catch\<close> block is not entered. These are the responses, none of them of
  the well-formed shape, that are not \<^verbatim>\<open>null\<close> and in which \<^verbatim>\<open>candidates\<close> has no items
  (it is absent, falsy, a number, a boolean, an empty array as in \<^verbatim>\<open>{candidates: []}\<close>, or
  an object whose \<^verbatim>\<open>length\<close> is not greater than 0), or in which the first item of
  \<^verbatim>\<open>candidates\<close> (of an array, a string or an array-like object) is not \<^verbatim>\<open>null\<close> or
  \<^verbatim>\<open>undefined\<close> and has a \<^verbatim>\<open>content\<close> that is absent or falsy or whose \<^verbatim>\<open>parts\<close> has no
  items.
\<close>

theorem lacking_shape_fallback:
  assumes "lacks_candidate_shape (engine env) r"
    and "cameraReady s" and "cameraRef s"
    and "photo env = Inr ph" and "get_field (engine env) ph ''base64'' = Inr b"
    and "fetched env = Inr resp" and "json resp = Inr r"
  shows "spec_wellformed_text r = None \<and>
         candidate_guard (engine env) r = Inr False \<and>
         describe_result (engine env) r =
           Inr (JStr ''No clear description was generated. Please try again.'') \<and>
         message (processImage env s) =
           JStr ''No clear description was generated. Please try again.'' \<and>
         (\<exists>pre. trace (processImage env s) =
            trace s @ pre @
            [SpeechStop,
             SpeechSpeak (JStr ''No clear description was generated. Please try again.'')
               speechOptions]) \<and>
         filter is_console_error (trace (processImage env s)) =
           filter is_console_error (trace s)"
proof -
  have d: "describe_result (engine env) r = Inr (JStr fallbackDescription)"
    using assms(1) by (rule describe_lacking)
  have o: "pipeline_outcome env = Inr (JStr fallbackDescription)"
    using pipeline_outcome_parsed [OF assms(4-7)] d by simp
  from processImage_ready_suffix [OF assms(2,3), of env]
    processImage_ready_message [OF assms(2,3), of env]
    processImage_ready_console [OF assms(2,3), of env] d o
    lacking_not_wellformed [OF assms(1)] assms(1)
  show ?thesis
    by (simp add: result_text_def fallbackDescription_def guard_false_iff_lacking)
qed

theorem lacking_shape_fallback_witness:
  "lacks_candidate_shape sampleEngine emptyCandidates \<and>
   describe_result sampleEngine emptyCandidates =
     Inr (JStr ''No clear description was generated. Please try again.'') \<and>
   message (processImage (hostWith 200 (Inr emptyCandidates)) readyState) =
     JStr ''No clear description was generated. Please try again.'' \<and>
   lacks_candidate_shape sampleEngine (JObj [(''candidates'', JNum 5)]) \<and>
   message (processImage (hostWith 200 (Inr (JObj [(''candidates'', JNum 5)]))) readyState) =
     JStr ''No clear description was generated. Please try again.''"
proof -
  have ready: "cameraReady readyState" "cameraRef readyState"
    by (simp_all add: readyState_def)
  have host: "photo (hostWith 200 (Inr body)) = Inr samplePhoto"
    "get_field (engine (hostWith 200 (Inr body))) samplePhoto ''base64'' =
       Inr (JStr ''/9j/4AAQSkZJRg=='')"
    "fetched (hostWith 200 (Inr body)) = Inr \<lparr>status = 200, json = Inr body\<rparr>"
    "json \<lparr>status = 200, json = Inr body\<rparr> = Inr body"
    "engine (hostWith 200 (Inr body)) = sampleEngine" for body
    by (simp_all add: hostWith_def samplePhoto_def)
  have l1: "lacks_candidate_shape (engine (hostWith 200 (Inr emptyCandidates))) emptyCandidates"
    unfolding host(5) by (rule lacking_examples(5) [folded emptyCandidates_def])
  have l2: "lacks_candidate_shape (engine (hostWith 200 (Inr (JObj [(''candidates'', JNum 5)]))))
      (JObj [(''candidates'', JNum 5)])"
    unfolding host(5) by (rule lacking_examples(1))
  from lacking_shape_fallback [OF l1 ready host(1-4)]
    lacking_shape_fallback [OF l2 ready host(1-4)] l1 l2
  show ?thesis by (simp add: host(5))
qed

text \<open>
  The claim as stated, for every parsed response lacking the well-formed shape, fails on
  the body \<^verbatim>\<open>null\<close>: it is valid JSON and lacks the shape, the read of
  \<^verbatim>\<open>result.candidates\<close> throws a TypeError, and the \<^verbatim>\<open>catch\<close> block reports a failure
  instead of the fallback string. On \<^verbatim>\<open>{candidates: []}\<close> the fallback string is the one of
  line 167, not the wording of the specification.
\<close>

theorem null_body_not_fallback:
  "spec_wellformed_text JNull = None \<and>
   message (processImage (hostWith 200 (Inr JNull)) readyState) =
     JStr ''Failed to get description: Cannot read properties of null (reading 'candidates'). Please try again.'' \<and>
   message (processImage (hostWith 200 (Inr JNull)) readyState) \<noteq> JStr fallbackDescription \<and>
   spec_wellformed_text emptyCandidates = None \<and>
   message (processImage (hostWith 200 (Inr emptyCandidates)) readyState) \<noteq>
     JStr ''no clear description generated''"
proof -
  have ready: "cameraReady readyState" "cameraRef readyState"
    by (simp_all add: readyState_def)
  have 1: "pipeline_outcome (hostWith 200 (Inr JNull)) =
      Inl (JsError ''Cannot read properties of null (reading 'candidates')'')"
    by (simp add: pipeline_outcome_def describe_defs sample_defs)
  have 2: "pipeline_outcome (hostWith 200 (Inr emptyCandidates)) = Inr (JStr fallbackDescription)"
    by (simp add: pipeline_outcome_def describe_defs sample_defs)
  have m1: "message (processImage (hostWith 200 (Inr JNull)) readyState) =
      JStr ''Failed to get description: Cannot read properties of null (reading 'candidates'). Please try again.''"
    by (simp add: processImage_ready_message [OF ready] 1 result_text_def failureMessage_def)
  have m2: "message (processImage (hostWith 200 (Inr emptyCandidates)) readyState) =
      JStr fallbackDescription"
    by (simp add: processImage_ready_message [OF ready] 2 result_text_def)
  have w: "spec_wellformed_text JNull = None" "spec_wellformed_text emptyCandidates = None"
    by (simp_all add: spec_wellformed_text_def emptyCandidates_def)
  show ?thesis
    unfolding m1 m2 by (simp add: w fallbackDescription_def)
qed

section \<open>Failures of the inference call\<close>

lemma pipeline_outcome_fetch_failed:
  "photo env = Inr ph \<Longrightarrow> get_field (engine env) ph ''base64'' = Inr b \<Longrightarrow>
   fetched env = Inl e \<Longrightarrow> pipeline_outcome env = Inl e"
  by (simp add: pipeline_outcome_def bind_js_def)

lemma pipeline_outcome_parse_failed:
  "photo env = Inr ph \<Longrightarrow> get_field (engine env) ph ''base64'' = Inr b \<Longrightarrow>
   fetched env = Inr resp \<Longrightarrow> json resp = Inl e \<Longrightarrow> pipeline_outcome env = Inl e"
  by (simp add: pipeline_outcome_def bind_js_def)

lemma processImage_failed_suffix:
  assumes "cameraReady s" and "cameraRef s" and "pipeline_outcome env = Inl e"
  shows "\<exists>pre. trace (processImage env s) =
          trace s @ pre @
          [ConsoleError ''Error during capture or API call:'' (Some e), SpeechStop,
           SpeechSpeak (JStr (failureMessage e)) speechOptions]"
proof -
  let ?mid = "case bind_js (photo env) (\<lambda>ph. get_field (engine env) ph ''base64'') of
        Inl e \<Rightarrow> []
      | Inr b \<Rightarrow>
          Fetch apiUrl (fetchOptions (build_payload (getPromptForMode (currentMode s)) b)) #
          (case fetched env of Inl e \<Rightarrow> [] | Inr r \<Rightarrow> [ResponseJson])"
  have "trace (processImage env s) =
          trace s @ ([SpeechStop, TakePicture pictureOptions] @ ?mid) @
          [ConsoleError ''Error during capture or API call:'' (Some e), SpeechStop,
           SpeechSpeak (JStr (failureMessage e)) speechOptions]"
    unfolding processImage_ready_trace [OF assms(1,2)]
    by (simp add: assms(3) result_text_def)
  then show ?thesis by blast
qed

text \<open>
  Claim C5. When the capture has succeeded and the network call fails, or the body of
  the response fails to parse, with an error whose message is \<^verbatim>\<open>M\<close>, then \<^verbatim>\<open>processImage\<close>
  produces the message \<^verbatim>\<open>Failed to get description: M. Please try again.\<close>: it is
  displayed and spoken, the error is logged, and \<open>isProcessing\<close> ends false. For the
  message \<^verbatim>\<open>timeout\<close> the text is exactly
  \<^verbatim>\<open>Failed to get description: timeout. Please try again.\<close>
\<close>

theorem inference_failure_announced:
  assumes "cameraReady s" and "cameraRef s"
    and "photo env = Inr ph" and "get_field (engine env) ph ''base64'' = Inr b"
    and "fetched env = Inl (JsError M) \<or>
         (\<exists>resp. fetched env = Inr resp \<and> json resp = Inl (JsError M))"
  shows "message (processImage env s) =
           JStr (''Failed to get description: '' @ M @ ''. Please try again.'') \<and>
         isProcessing (processImage env s) = False \<and>
         (\<exists>pre. trace (processImage env s) =
            trace s @ pre @
            [ConsoleError ''Error during capture or API call:'' (Some (JsError M)),
             SpeechStop,
             SpeechSpeak (JStr (''Failed to get description: '' @ M @ ''. Please try again.''))
               speechOptions])"
proof -
  have o: "pipeline_outcome env = Inl (JsError M)"
    using assms(5) pipeline_outcome_fetch_failed [OF assms(3,4)]
      pipeline_outcome_parse_failed [OF assms(3,4)] by blast
  from processImage_failed_suffix [OF assms(1,2) o]
    processImage_ready_message [OF assms(1,2), of env]
    processImage_ready_flag [OF assms(1,2), of env] o
  show ?thesis by (simp add: result_text_def failureMessage_def)
qed

theorem inference_failure_announced_witness:
  "cameraReady readyState \<and> cameraRef readyState \<and>
   fetched timeoutHost = Inl (JsError ''timeout'') \<and>
   message (processImage timeoutHost readyState) =
     JStr ''Failed to get description: timeout. Please try again.'' \<and>
   isProcessing (processImage timeoutHost readyState) = False \<and>
   (\<exists>pre. trace (processImage timeoutHost readyState) =
      trace readyState @ pre @
      [ConsoleError ''Error during capture or API call:'' (Some (JsError ''timeout'')),
       SpeechStop,
       SpeechSpeak (JStr ''Failed to get description: timeout. Please try again.'')
         speechOptions])"
proof -
  have ready: "cameraReady readyState" "cameraRef readyState"
    by (simp_all add: readyState_def)
  have host: "photo timeoutHost = Inr samplePhoto"
    "get_field (engine timeoutHost) samplePhoto ''base64'' = Inr (JStr ''/9j/4AAQSkZJRg=='')"
    by (simp_all add: timeoutHost_def samplePhoto_def)
  have f: "fetched timeoutHost = Inl (JsError ''timeout'')"
    by (simp add: timeoutHost_def)
  then have "fetched timeoutHost = Inl (JsError ''timeout'') \<or>
      (\<exists>resp. fetched timeoutHost = Inr resp \<and> json resp = Inl (JsError ''timeout''))"
    by simp
  from inference_failure_announced [OF ready host this] ready f
  show ?thesis by simp
qed

section \<open>Stopping\<close>

lemma resume_keeps_idle:
  "\<not> isProcessing s \<Longrightarrow> \<not> isProcessing (snd (resume env p s))"
  by (cases p)
     (simp_all add: after_photo_def after_fetch_def after_json_flag step_defs
        split: sum.splits)

lemma resumes_keep_idle:
  "\<not> isProcessing s \<Longrightarrow> \<not> isProcessing (resumes steps s)"
proof (induction steps arbitrary: s)
  case Nil
  then show ?case by simp
next
  case (Cons step steps)
  obtain env p where step: "step = (env, p)" by (cases step)
  from Cons.prems have "\<not> isProcessing (snd (resume env p s))"
    by (rule resume_keeps_idle)
  then show ?case unfolding step by (simp add: Cons.IH)
qed

text \<open>
  Claim C6. The stop handler cancels the speech playback, sets \<open>isProcessing\<close> to false
  and announces the fixed message \<^verbatim>\<open>Stopped all operations\<close>. When it runs while a capture
  is in flight, \<open>isProcessing\<close> stays false through every later resumption of a suspended
  invocation, whatever the host answers, and is false when the invocation ends.
\<close>

theorem stop_forces_idle:
  "trace (stopButton s) =
     trace s @ [SpeechStop, SpeechStop, SpeechSpeak (JStr ''Stopped all operations'') speechOptions] \<and>
   message (stopButton s) = JStr ''Stopped all operations'' \<and>
   isProcessing (stopButton s) = False \<and>
   isProcessing (resumes steps (stopButton s)) = False \<and>
   isProcessing (finish env p (stopButton s)) = False"
proof -
  have idle: "\<not> isProcessing (stopButton s)"
    by (simp add: stopButton_def step_defs)
  from resumes_keep_idle [OF idle, of steps] idle show ?thesis
    by (simp add: finish_flag) (simp add: stopButton_def step_defs stoppedMessage_def)
qed

theorem stop_forces_idle_witness:
  "isProcessing (snd (processImage_start readyState)) = True \<and>
   isProcessing (stopButton (snd (processImage_start readyState))) = False \<and>
   message (stopButton (snd (processImage_start readyState))) = JStr ''Stopped all operations'' \<and>
   isProcessing (finish (hostWith 200 (Inr room204)) (AwaitPhoto ''passive'')
      (stopButton (snd (processImage_start readyState)))) = False"
proof -
  have "isProcessing (snd (processImage_start readyState)) = True"
    by (simp add: processImage_start_def readyState_def initialState_def step_defs)
  with stop_forces_idle [of "snd (processImage_start readyState)" "[]"
      "hostWith 200 (Inr room204)" "AwaitPhoto ''passive''"]
  show ?thesis by simp
qed

section \<open>Announcements of the permission gate\<close>

lemma permissionGate_absent_trace:
  "trace (permissionGate E False outcome s) =
     trace s @
     [ConsoleError ''Expo Camera module is not available or not linked correctly.'' None,
      SpeechStop, SpeechSpeak (JStr moduleMissingMessage) speechOptions,
      SetTimeout 500,
      SpeechStop, SpeechSpeak (JStr moduleMissingMessage) speechOptions]"
  by (simp add: permissionGate_def requestPermissions_def timerCallback_def step_defs)

lemma permissionGate_available_once:
  "\<exists>pre. trace (permissionGate E True outcome s) =
     trace s @ pre @
     [SetTimeout 500, SpeechStop,
      SpeechSpeak (JStr (fst (requestPermissions E True outcome s))) speechOptions] \<and>
     filter is_speak pre = []"
  by (simp add: permissionGate_def requestPermissions_def timerCallback_def step_defs Let_def
      split: sum.splits)

lemma permissionGate_messages:
  "fst (requestPermissions E True (Inr (JObj [(''status'', JStr ''granted'')])) s) = grantedMessage"
  "st \<noteq> JStr ''granted'' \<Longrightarrow>
   fst (requestPermissions E True (Inr (JObj [(''status'', st)])) s) = cameraDeniedMessage"
  "fst (requestPermissions E True (Inl e) s) = permissionErrorMessage e"
  by (simp_all add: requestPermissions_def bind_js_def Let_def)

text \<open>
  Claim C7 holds on three of the four outcomes (\<open>permissionGate_available_once\<close>: when
  the camera module is there, whether the permission is granted, denied or the request
  throws, the status message is spoken once, by the timer callback). It fails when the
  camera capability is absent: line 57 announces the message at once, the \<^verbatim>\<open>return\<close> of
  line 58 still runs the \<^verbatim>\<open>finally\<close> block, and the timer announces the same message a
  second time. The start-up on a host without the camera module:
\<close>

theorem camera_absent_announced_twice:
  "filter is_speak (trace (permissionGate E False outcome initialState)) =
     [SpeechSpeak (JStr ''Camera module not found or not functional.'') speechOptions,
      SpeechSpeak (JStr ''Camera module not found or not functional.'') speechOptions] \<and>
   trace (permissionGate E False outcome initialState) =
     [ConsoleError ''Expo Camera module is not available or not linked correctly.'' None,
      SpeechStop,
      SpeechSpeak (JStr ''Camera module not found or not functional.'') speechOptions,
      SetTimeout 500,
      SpeechStop,
      SpeechSpeak (JStr ''Camera module not found or not functional.'') speechOptions]"
  by (simp add: permissionGate_absent_trace moduleMissingMessage_def initialState_def)

section \<open>The request\<close>

text \<open>
  Claim C8. For every mode and every captured image (a photo whose \<^verbatim>\<open>base64\<close> is the
  string \<^verbatim>\<open>b\<close>), \<^verbatim>\<open>processImage\<close> issues exactly one \<^verbatim>\<open>fetch\<close>, whether it then succeeds or
  fails: a POST to the fixed URL of the model \<^verbatim>\<open>gemini-2.0-flash\<close> with the key in the
  query string, the JSON content type, and the body
  \<^verbatim>\<open>{contents: [{role: "user", parts: [{text: prompt}, {inlineData: {mimeType:
  "image/jpeg", data: b}}]}]}\<close> where \<^verbatim>\<open>prompt\<close> is the prompt of the mode. The invocation
  is suspended until that call settles, and it sets no timer.
\<close>

theorem request_shape:
  assumes "cameraReady s" and "cameraRef s"
    and "photo env = Inr ph" and "get_field (engine env) ph ''base64'' = Inr (JStr b)"
  shows "filter is_fetch (trace (processImage env s)) =
           filter is_fetch (trace s) @
           [Fetch ''https://generativelanguage.googleapis.com/v1beta/models/gemini-2.0-flash:generateContent?key={insert here}''
              \<lparr>httpMethod = ''POST'',
               headers = [(''Content-Type'', ''application/json'')],
               body =
                 JObj [(''contents'', JArr [
                   JObj [(''role'', JStr ''user''),
                         (''parts'', JArr [
                            JObj [(''text'', JStr (getPromptForMode (currentMode s)))],
                            JObj [(''inlineData'',
                               JObj [(''mimeType'', JStr ''image/jpeg''),
                                     (''data'', JStr b)])]])]])]\<rparr>] \<and>
         filter is_timer (trace (processImage env s)) = filter is_timer (trace s) \<and>
         fst (resume env (AwaitPhoto (currentMode s)) (snd (processImage_start s))) =
           Some AwaitFetch"
proof -
  have "fst (resume env (AwaitPhoto (currentMode s)) (snd (processImage_start s))) =
      Some AwaitFetch"
    by (simp add: after_photo_def assms(3,4) bind_js_def)
  then show ?thesis
    unfolding processImage_ready_trace [OF assms(1,2)]
    by (simp add: assms(3,4) bind_js_def apiUrl_def apiKey_def fetchOptions_def
        build_payload_def split: sum.splits)
qed

theorem request_shape_witness:
  "cameraReady readyState \<and> cameraRef readyState \<and>
   filter is_fetch (trace (processImage timeoutHost readyState)) =
     [Fetch ''https://generativelanguage.googleapis.com/v1beta/models/gemini-2.0-flash:generateContent?key={insert here}''
        \<lparr>httpMethod = ''POST'',
         headers = [(''Content-Type'', ''application/json'')],
         body =
           JObj [(''contents'', JArr [
             JObj [(''role'', JStr ''user''),
                   (''parts'', JArr [
                      JObj [(''text'', JStr passivePrompt)],
                      JObj [(''inlineData'',
                         JObj [(''mimeType'', JStr ''image/jpeg''),
                               (''data'', JStr ''/9j/4AAQSkZJRg=='')])]])]])]\<rparr>]"
proof -
  have ready: "cameraReady readyState" "cameraRef readyState"
    by (simp_all add: readyState_def)
  have host: "photo timeoutHost = Inr samplePhoto"
    "get_field (engine timeoutHost) samplePhoto ''base64'' = Inr (JStr ''/9j/4AAQSkZJRg=='')"
    by (simp_all add: timeoutHost_def samplePhoto_def)
  have mode: "getPromptForMode (currentMode readyState) = passivePrompt"
    "trace readyState = []"
    by (simp_all add: getPromptForMode_def readyState_def initialState_def)
  from request_shape [OF ready host] ready mode
  show ?thesis by simp
qed

section \<open>The HTTP status\<close>

lemma processImage_status:
  "processImage \<lparr>engine = E, photo = p, fetched = Inr \<lparr>status = n, json = j\<rparr>\<rparr> s =
   processImage \<lparr>engine = E, photo = p, fetched = Inr \<lparr>status = m, json = j\<rparr>\<rparr> s"
  by (simp add: processImage_def processImage_start_def finish_photo_def finish_fetch_def
      finish_json_def after_photo_def after_fetch_def
      split: sum.splits prod.splits option.splits pending.splits)

text \<open>
  Claim C9, as amended. \<^verbatim>\<open>processImage\<close> never reads the HTTP status: two responses that
  differ in the status alone lead to the same state. For a response of any status whose
  body parses to a value on which the guard of lines 162 to 164 fails without a read
  throwing (a value without a usable candidate list, such as an error body
  \<^verbatim>\<open>{error: {...}}\<close> or \<^verbatim>\<open>{candidates: 5}\<close>), the result is the fallback string of line 167
  and the \<^verbatim>\<open>catch\<close> block is not entered. The \<^verbatim>\<open>catch\<close> block is entered exactly when
  something in the \<^verbatim>\<open>try\<close> block throws: the capture, the read of \<^verbatim>\<open>photo.base64\<close>, the
  fetch, the parsing of the body, or a property read on the parsed value.
\<close>

theorem status_never_inspected:
  assumes "cameraReady s" and "cameraRef s"
  shows "processImage \<lparr>engine = E, photo = p, fetched = Inr \<lparr>status = n, json = j\<rparr>\<rparr> s =
           processImage \<lparr>engine = E, photo = p, fetched = Inr \<lparr>status = m, json = j\<rparr>\<rparr> s \<and>
         filter is_console_error (trace (processImage env s)) =
           filter is_console_error (trace s) @
           (case pipeline_outcome env of
              Inl e \<Rightarrow> [ConsoleError ''Error during capture or API call:'' (Some e)]
            | Inr d \<Rightarrow> []) \<and>
         (photo env = Inr ph \<and> get_field (engine env) ph ''base64'' = Inr b \<and>
          fetched env = Inr resp \<and> json resp = Inr r \<and>
          lacks_candidate_shape (engine env) r \<longrightarrow>
            message (processImage env s) =
              JStr ''No clear description was generated. Please try again.'' \<and>
            filter is_console_error (trace (processImage env s)) =
              filter is_console_error (trace s))"
proof -
  have "message (processImage env s) = JStr fallbackDescription \<and>
        filter is_console_error (trace (processImage env s)) = filter is_console_error (trace s)"
    if h: "photo env = Inr ph" "get_field (engine env) ph ''base64'' = Inr b"
      "fetched env = Inr resp" "json resp = Inr r" "lacks_candidate_shape (engine env) r"
  proof -
    have "pipeline_outcome env = Inr (JStr fallbackDescription)"
      using pipeline_outcome_parsed [OF h(1-4)] describe_lacking [OF h(5)] by simp
    then show ?thesis
      by (simp add: processImage_ready_message [OF assms] processImage_ready_console [OF assms]
          result_text_def)
  qed
  moreover note processImage_status [of E p n j s m] processImage_ready_console [OF assms, of env]
  ultimately show ?thesis
    by (simp add: fallbackDescription_def)
qed

theorem status_never_inspected_witness:
  "cameraReady readyState \<and> cameraRef readyState \<and>
   lacks_candidate_shape sampleEngine errorBody \<and>
   processImage (hostWith 500 (Inr errorBody)) readyState =
     processImage (hostWith 200 (Inr errorBody)) readyState \<and>
   message (processImage (hostWith 500 (Inr errorBody)) readyState) =
     JStr ''No clear description was generated. Please try again.'' \<and>
   filter is_console_error (trace (processImage (hostWith 500 (Inr errorBody)) readyState)) = [] \<and>
   message (processImage (hostWith 500 (Inr (JObj [(''candidates'', JNum 5)]))) readyState) =
     JStr ''No clear description was generated. Please try again.'' \<and>
   filter is_console_error
     (trace (processImage (hostWith 500 (Inr (JObj [(''candidates'', JNum 5)]))) readyState)) = []"
proof -
  have ready: "cameraReady readyState" "cameraRef readyState"
    by (simp_all add: readyState_def)
  have host: "photo (hostWith 500 (Inr body)) = Inr samplePhoto"
    "get_field (engine (hostWith 500 (Inr body))) samplePhoto ''base64'' =
       Inr (JStr ''/9j/4AAQSkZJRg=='')"
    "fetched (hostWith 500 (Inr body)) = Inr \<lparr>status = 500, json = Inr body\<rparr>"
    "json \<lparr>status = 500, json = Inr body\<rparr> = Inr body"
    "engine (hostWith 500 (Inr body)) = sampleEngine" for body
    by (simp_all add: hostWith_def samplePhoto_def)
  have l: "lacks_candidate_shape sampleEngine errorBody"
    "lacks_candidate_shape sampleEngine (JObj [(''candidates'', JNum 5)])"
    by (simp_all add: lacks_candidate_shape_def field_value_def errorBody_def)
  have t: "trace readyState = []"
    by (simp add: readyState_def initialState_def)
  note inst = status_never_inspected [OF ready, where env = "hostWith 500 (Inr errorBody)"
      and resp = "\<lparr>status = 500, json = Inr errorBody\<rparr>" and ph = samplePhoto
      and b = "JStr ''/9j/4AAQSkZJRg==''" and r = errorBody
      and E = sampleEngine and p = "Inr samplePhoto" and n = 500 and m = 200
      and j = "Inr errorBody"]
  note inst5 = status_never_inspected [OF ready,
      where env = "hostWith 500 (Inr (JObj [(''candidates'', JNum 5)]))"
      and resp = "\<lparr>status = 500, json = Inr (JObj [(''candidates'', JNum 5)])\<rparr>"
      and ph = samplePhoto and b = "JStr ''/9j/4AAQSkZJRg==''"
      and r = "JObj [(''candidates'', JNum 5)]"]
  have same: "processImage (hostWith 500 (Inr errorBody)) readyState =
      processImage (hostWith 200 (Inr errorBody)) readyState"
    using inst [THEN conjunct1] by (simp add: hostWith_def)
  have fallback: "message (processImage (hostWith 500 (Inr errorBody)) readyState) =
      JStr ''No clear description was generated. Please try again.'' \<and>
    filter is_console_error (trace (processImage (hostWith 500 (Inr errorBody)) readyState)) =
      filter is_console_error (trace readyState)"
    using inst [THEN conjunct2, THEN conjunct2] host l(1) by simp
  have fallback5:
    "message (processImage (hostWith 500 (Inr (JObj [(''candidates'', JNum 5)]))) readyState) =
      JStr ''No clear description was generated. Please try again.'' \<and>
    filter is_console_error
      (trace (processImage (hostWith 500 (Inr (JObj [(''candidates'', JNum 5)]))) readyState)) =
      filter is_console_error (trace readyState)"
    using inst5 [THEN conjunct2, THEN conjunct2] host l(2) by simp
  from ready l(1) same fallback fallback5 show ?thesis
    by (simp add: t)
qed

text \<open>
  The claim as stated fails twice. The \<^verbatim>\<open>catch\<close> path is taken when the capture rejects,
  although the fetch is never issued and nothing is parsed; and a response of status 500
  whose body parses to \<^verbatim>\<open>{candidates: [null]}\<close> lacks the candidate shape, yet the read of
  \<^verbatim>\<open>result.candidates[0].content\<close> throws and the result is a failure message.
\<close>

theorem catch_path_beyond_fetch_and_parse:
  "fetched captureFailsHost = Inr \<lparr>status = 200, json = Inr room204\<rparr> \<and>
   message (processImage captureFailsHost readyState) =
     JStr ''Failed to get description: Camera is not running. Please try again.'' \<and>
   filter is_fetch (trace (processImage captureFailsHost readyState)) = [] \<and>
   spec_wellformed_text (JObj [(''candidates'', JArr [JNull])]) = None \<and>
   message (processImage (hostWith 500 (Inr (JObj [(''candidates'', JArr [JNull])]))) readyState) =
     JStr ''Failed to get description: Cannot read properties of null (reading 'content'). Please try again.''"
proof -
  have ready: "cameraReady readyState" "cameraRef readyState"
    by (simp_all add: readyState_def)
  have 1: "pipeline_outcome captureFailsHost = Inl (JsError ''Camera is not running'')"
    by (simp add: pipeline_outcome_def bind_js_def captureFailsHost_def)
  have 2: "pipeline_outcome (hostWith 500 (Inr (JObj [(''candidates'', JArr [JNull])]))) =
      Inl (JsError ''Cannot read properties of null (reading 'content')'')"
    by (simp add: pipeline_outcome_def describe_defs sample_defs)
  have m1: "message (processImage captureFailsHost readyState) =
      JStr ''Failed to get description: Camera is not running. Please try again.''"
    by (simp add: processImage_ready_message [OF ready] 1 result_text_def failureMessage_def)
  have m2: "message (processImage (hostWith 500 (Inr (JObj [(''candidates'', JArr [JNull])]))) readyState) =
      JStr ''Failed to get description: Cannot read properties of null (reading 'content'). Please try again.''"
    by (simp add: processImage_ready_message [OF ready] 2 result_text_def failureMessage_def)
  have f: "filter is_fetch (trace (processImage captureFailsHost readyState)) = []"
  proof -
    have p: "photo captureFailsHost = Inl (JsError ''Camera is not running'')"
      and t: "trace readyState = []"
      by (simp_all add: captureFailsHost_def readyState_def initialState_def)
    show ?thesis
      unfolding processImage_ready_trace [OF ready] 1 p t by (simp add: bind_js_def)
  qed
  have w: "spec_wellformed_text (JObj [(''candidates'', JArr [JNull])]) = None"
    by (simp add: spec_wellformed_text_def)
  have h: "fetched captureFailsHost = Inr \<lparr>status = 200, json = Inr room204\<rparr>"
    by (simp add: captureFailsHost_def)
  from h m1 f w m2 show ?thesis by blast
qed

section \<open>The default prompt\<close>

text \<open>
  Claim C10. \<^verbatim>\<open>getPromptForMode\<close> returns a prompt for every string: for every mode other
  than \<^verbatim>\<open>read\<close> and \<^verbatim>\<open>navigate\<close> (so for \<^verbatim>\<open>passive\<close>, for the empty string and for any
  unknown mode) it returns the prompt of the passive mode.
\<close>

theorem getPromptForMode_default:
  assumes "mode \<noteq> ''read''" and "mode \<noteq> ''navigate''"
  shows "getPromptForMode mode =
           ''Describe the scene briefly. Focus on elements that would be helpful for a visually impaired person to navigate or understand their surroundings. For example, if there's text, read it out. If there are obstacles, describe them. Be concise but informative.'' \<and>
         getPromptForMode mode = getPromptForMode ''passive''"
  using assms by (simp add: getPromptForMode_def passivePrompt_def)

theorem getPromptForMode_default_witness:
  "getPromptForMode [] = getPromptForMode ''passive'' \<and>
   getPromptForMode ''describe'' = getPromptForMode ''passive'' \<and>
   getPromptForMode ''passive'' = passivePrompt"
proof -
  have 1: "[] \<noteq> ''read''" "[] \<noteq> ''navigate''" by simp_all
  have 2: "''describe'' \<noteq> ''read''" "''describe'' \<noteq> ''navigate''" by simp_all
  have 3: "''passive'' \<noteq> ''read''" "''passive'' \<noteq> ''navigate''" by simp_all
  from getPromptForMode_default [OF 1] getPromptForMode_default [OF 2]
    getPromptForMode_default [OF 3]
  show ?thesis by (simp add: passivePrompt_def)
qed

end
